theory Spec2Isabelle
  imports Complex_Main "HOL-Library.Multiset" "HOL-Library.Char_ord" "HOL-Library.List_Lexorder"
begin

section \<open>Data model (lib/types.ts)\<close>

text \<open>
  A JavaScript \<open>number\<close> that arrives through JSON is a finite value; it is modelled as a
  \<open>real\<close>, so comparisons are the exact ones and arithmetic is the ideal one (rounding of
  doubles is not modelled). An optional or nullable field is an \<open>option\<close>: \<open>None\<close> stands
  for both \<open>undefined\<close> and \<open>null\<close>, which the code never tells apart.
\<close>

record Outcome =
  name :: string
  price :: real

record CrossMatchCandidate =
  marketId :: string
  question :: string
  similarity :: "real option"
  category :: "string option"
  closeTime :: "string option"
  url :: "string option"
  timestamp :: string

record CrossMatchGroup =
  baseMarketId :: string
  baseQuestion :: string
  baseCategory :: "string option"
  baseCloseTime :: "string option"
  baseUrl :: "string option"
  matches :: "CrossMatchCandidate list"

record CrossMatchRow =
  baseMarketId :: string
  baseQuestion :: string
  baseCategory :: "string option"
  baseCloseTime :: "string option"
  baseUrl :: "string option"
  candidate :: CrossMatchCandidate

record Opportunity =
  marketId :: string
  question :: string
  sumPrices :: real
  edge :: real
  numOutcomes :: real
  liquidity :: "real option"
  url :: string
  updatedAt :: string
  outcomes :: "Outcome list option"
  category :: "string option"
  closeTime :: "string option"

record OpportunityWithProfits = Opportunity +
  profitAt10 :: real
  profitAt100 :: real
  profitAt1000 :: real
  profitAt10000 :: real

datatype MessageType = Upsert | Remove

record SSEMessage =
  type :: MessageType
  marketId :: string
  opportunity :: "Opportunity option"

section \<open>The client's opportunity map (hooks/use-opportunities.ts)\<close>

text \<open>
  A JavaScript \<open>Map\<close> iterates in insertion order, and \<open>filteredAndSorted\<close> reads
  \<open>opportunities.values()\<close>, so the map is an association list in insertion order.
  \<open>Map.prototype.set\<close> overwrites the value of a key that is present, in place, and appends
  a key that is absent; \<open>Map.prototype.delete\<close> removes the key; \<open>get\<close> is \<open>map_of\<close>.
\<close>

type_synonym OpportunityMap = "(string \<times> Opportunity) list"

fun map_set :: "string \<Rightarrow> 'v \<Rightarrow> (string \<times> 'v) list \<Rightarrow> (string \<times> 'v) list" where
  "map_set k v [] = [(k, v)]"
| "map_set k v ((k', v') # m) =
     (if k' = k then (k, v) # m else (k', v') # map_set k v m)"

definition map_delete :: "string \<Rightarrow> (string \<times> 'v) list \<Rightarrow> (string \<times> 'v) list" where
  "map_delete k m = filter (\<lambda>(k', v). k' \<noteq> k) m"

text \<open>
  \<open>handleSSEMessage\<close>: the state update the callback applies to the map. When neither
  branch is taken \<open>setOpportunities\<close> is not called and the map stays as it is.
\<close>

definition handleSSEMessage :: "SSEMessage \<Rightarrow> OpportunityMap \<Rightarrow> OpportunityMap" where
  "handleSSEMessage message prev =
     (if type message = Upsert \<and> opportunity message \<noteq> None
      then map_set (marketId message) (the (opportunity message)) prev
      else if type message = Remove
      then map_delete (marketId message) prev
      else prev)"

text \<open>
  \<open>useOpportunities\<close> starts from \<open>new Map(initialData.map((opp) => [opp.marketId, opp]))\<close>:
  the constructor sets the entries one after the other.
\<close>

definition initialOpportunities :: "Opportunity list \<Rightarrow> OpportunityMap" where
  "initialOpportunities initialData =
     foldl (\<lambda>m opp. map_set (Opportunity.marketId opp) opp m) [] initialData"

section \<open>Profits (lib/utils/opportunity.ts)\<close>

text \<open>
  \<open>calculateProfits\<close> spreads the opportunity and adds the four profit fields: the record
  extension of \<open>Opportunity\<close> by the fields of \<open>OpportunityWithProfits\<close>.
\<close>

definition calculateProfits :: "Opportunity \<Rightarrow> OpportunityWithProfits" where
  "calculateProfits opp =
     (let edge = edge opp in
      Opportunity.extend opp
        (OpportunityWithProfits.fields (edge * 10) (edge * 100) (edge * 1000) (edge * 10000)))"

section \<open>Numbers that may be infinite, and Array.prototype.sort\<close>

text \<open>
  Where the code uses \<open>Number.POSITIVE_INFINITY\<close> a number is a \<open>jsnum\<close>. Subtraction
  follows IEEE 754: \<open>Infinity - Infinity\<close> is \<open>NaN\<close>.
\<close>

datatype jsnum = Fin real | PInf | NInf | NaN

fun js_minus :: "jsnum \<Rightarrow> jsnum \<Rightarrow> jsnum" where
  "js_minus NaN _ = NaN"
| "js_minus _ NaN = NaN"
| "js_minus (Fin a) (Fin b) = Fin (a - b)"
| "js_minus (Fin a) PInf = NInf"
| "js_minus (Fin a) NInf = PInf"
| "js_minus PInf PInf = NaN"
| "js_minus PInf _ = PInf"
| "js_minus NInf NInf = NaN"
| "js_minus NInf _ = NInf"

fun js_less :: "jsnum \<Rightarrow> jsnum \<Rightarrow> bool" where
  "js_less NaN _ = False"
| "js_less _ NaN = False"
| "js_less (Fin a) (Fin b) = (a < b)"
| "js_less PInf _ = False"
| "js_less _ PInf = True"
| "js_less NInf (Fin b) = True"
| "js_less _ NInf = False"

text \<open>The order of the numbers, \<open>-Infinity\<close> lowest and \<open>Infinity\<close> highest; \<open>NaN\<close> is
  related to nothing.\<close>

definition js_le :: "jsnum \<Rightarrow> jsnum \<Rightarrow> bool" where
  "js_le a b = (a \<noteq> NaN \<and> b \<noteq> NaN \<and> (js_less a b \<or> a = b))"

text \<open>
  \<open>Array.prototype.sort\<close> is a built-in of the runtime. ECMAScript fixes what the code
  relies on: the sort is stable, a comparator result that is \<open>NaN\<close> counts as \<open>+0\<close>, and
  \<open>a\<close> stays before \<open>b\<close> unless the comparator is positive on them. For a consistent
  comparator that determines the result, computed here by stable insertion.
\<close>

definition not_after :: "jsnum \<Rightarrow> bool" where
  "not_after v = (case v of Fin d \<Rightarrow> d \<le> 0 | PInf \<Rightarrow> False | NInf \<Rightarrow> True | NaN \<Rightarrow> True)"

fun insert_sorted :: "('a \<Rightarrow> 'a \<Rightarrow> jsnum) \<Rightarrow> 'a \<Rightarrow> 'a list \<Rightarrow> 'a list" where
  "insert_sorted compareFn x [] = [x]"
| "insert_sorted compareFn x (y # ys) =
     (if not_after (compareFn x y) then x # y # ys else y # insert_sorted compareFn x ys)"

definition array_sort :: "('a \<Rightarrow> 'a \<Rightarrow> jsnum) \<Rightarrow> 'a list \<Rightarrow> 'a list" where
  "array_sort compareFn xs = foldr (insert_sorted compareFn) xs []"

section \<open>Filtering and sorting (hooks/use-opportunities.ts)\<close>

datatype SortBy = SortEdge | SortProfitAt1000 | SortLiquidity | SortCloseTime

datatype SortOrder = Asc | Desc

record FilterState =
  minEdge :: real
  maxEdge :: real
  minLiquidity :: real
  category :: string
  sortBy :: SortBy
  sortOrder :: SortOrder

text \<open>
  \<open>String.prototype.toLowerCase\<close> and \<open>new Date(s).getTime()\<close> belong to the runtime and
  not to the repository, so they are parameters of the model. \<open>toLowerCase\<close> is the
  runtime's case conversion, whatever it does to a string. \<open>getTime\<close> gives the time value
  of a string, and \<open>None\<close> when the runtime reads the string as no date: the time value
  of an invalid date is \<open>NaN\<close>.
\<close>

text \<open>\<open>opp.liquidity || 0\<close>: an absent liquidity counts as 0 (and 0 as itself).\<close>

definition liquidityOrZero :: "OpportunityWithProfits \<Rightarrow> real" where
  "liquidityOrZero opp = (case liquidity opp of None \<Rightarrow> 0 | Some l \<Rightarrow> l)"

text \<open>The callback of \<open>.filter\<close>, with its three early returns in the source's order.\<close>

definition passesFilters ::
  "(string \<Rightarrow> string) \<Rightarrow> FilterState \<Rightarrow> OpportunityWithProfits \<Rightarrow> bool" where
  "passesFilters toLowerCase filters opp =
     (if edge opp < minEdge filters \<or> edge opp > maxEdge filters then False
      else if minLiquidity filters > 0 \<and> liquidityOrZero opp < minLiquidity filters then False
      else if FilterState.category filters \<noteq> ''all'' \<and>
              map_option toLowerCase (Opportunity.category opp)
                \<noteq> Some (toLowerCase (FilterState.category filters)) then False
      else True)"

text \<open>
  The \<open>switch\<close> of the comparator. A close time that is absent or the empty string is falsy
  and gives \<open>Infinity\<close>; any other close time gives its time value, \<open>NaN\<close> when it is no
  date. The \<open>default\<close> branch of the switch is the \<open>edge\<close> branch again and no value of
  the type reaches it.
\<close>

definition sortValue ::
  "(string \<Rightarrow> real option) \<Rightarrow> SortBy \<Rightarrow> OpportunityWithProfits \<Rightarrow> jsnum" where
  "sortValue getTime selected a =
     (case selected of
        SortEdge \<Rightarrow> Fin (edge a)
      | SortProfitAt1000 \<Rightarrow> Fin (profitAt1000 a)
      | SortLiquidity \<Rightarrow> Fin (liquidityOrZero a)
      | SortCloseTime \<Rightarrow>
          (case Opportunity.closeTime a of
             None \<Rightarrow> PInf
           | Some s \<Rightarrow>
               if s \<noteq> [] then (case getTime s of None \<Rightarrow> NaN | Some t \<Rightarrow> Fin t)
               else PInf))"

definition compareOpportunities ::
  "(string \<Rightarrow> real option) \<Rightarrow> FilterState \<Rightarrow>
     OpportunityWithProfits \<Rightarrow> OpportunityWithProfits \<Rightarrow> jsnum" where
  "compareOpportunities getTime filters a b =
     (let aVal = sortValue getTime (sortBy filters) a;
          bVal = sortValue getTime (sortBy filters) b
      in if sortOrder filters = Desc then js_minus bVal aVal else js_minus aVal bVal)"

definition filteredAndSorted ::
  "(string \<Rightarrow> string) \<Rightarrow> (string \<Rightarrow> real option) \<Rightarrow> OpportunityMap \<Rightarrow> FilterState \<Rightarrow>
     OpportunityWithProfits list" where
  "filteredAndSorted toLowerCase getTime opportunities filters =
     array_sort (compareOpportunities getTime filters)
       (filter (passesFilters toLowerCase filters)
         (map calculateProfits (map snd opportunities)))"

text \<open>\<open>DEFAULT_FILTERS\<close>, the filter state the hook starts from.\<close>

definition DEFAULT_FILTERS :: FilterState where
  "DEFAULT_FILTERS =
     \<lparr>minEdge = 0, maxEdge = 1, minLiquidity = 0, category = ''all'',
      sortBy = SortEdge, sortOrder = Desc\<rparr>"

text \<open>
  The order by close time in the claim's words: a missing close time counts as positive
  infinity, so everything is at most an opportunity without a close time, and an
  opportunity with a close time is at most another with a close time when the time
  values are in that order. As in the code, the empty string counts as missing. A close
  time that is no date has no time value and is at most nothing.
\<close>

definition closeTimeAtMost ::
  "(string \<Rightarrow> real option) \<Rightarrow> OpportunityWithProfits \<Rightarrow> OpportunityWithProfits \<Rightarrow> bool" where
  "closeTimeAtMost getTime a b =
     (case Opportunity.closeTime b of
        None \<Rightarrow> True
      | Some sb \<Rightarrow>
          if sb = [] then True
          else (case Opportunity.closeTime a of
                  None \<Rightarrow> False
                | Some sa \<Rightarrow>
                    if sa = [] then False
                    else (case (getTime sa, getTime sb) of
                            (Some ta, Some tb) \<Rightarrow> ta \<le> tb
                          | _ \<Rightarrow> False)))"

section \<open>Edge distribution (components/edge-distribution.tsx)\<close>

text \<open>
  A bucket of the chart. The upper bound of the last bucket is
  \<open>Number.POSITIVE_INFINITY\<close>, so the upper bound is a \<open>jsnum\<close>; the decimal literals are
  read as the decimals they write.
\<close>

record Bucket =
  bucket_name :: string
  bucket_min :: real
  bucket_max :: jsnum
  bucket_count :: nat

definition buckets :: "Bucket list" where
  "buckets =
     [\<lparr>bucket_name = ''0-1%'', bucket_min = 0, bucket_max = Fin 0.01, bucket_count = 0\<rparr>,
      \<lparr>bucket_name = ''1-2%'', bucket_min = 0.01, bucket_max = Fin 0.02, bucket_count = 0\<rparr>,
      \<lparr>bucket_name = ''2-3%'', bucket_min = 0.02, bucket_max = Fin 0.03, bucket_count = 0\<rparr>,
      \<lparr>bucket_name = ''3-5%'', bucket_min = 0.03, bucket_max = Fin 0.05, bucket_count = 0\<rparr>,
      \<lparr>bucket_name = ''5%+'', bucket_min = 0.05, bucket_max = PInf, bucket_count = 0\<rparr>]"

text \<open>The predicate given to \<open>buckets.find\<close>: \<open>opp.edge >= b.min && opp.edge < b.max\<close>.\<close>

definition in_bucket :: "real \<Rightarrow> Bucket \<Rightarrow> bool" where
  "in_bucket e b = (e \<ge> bucket_min b \<and> js_less (Fin e) (bucket_max b))"

text \<open>
  \<open>find\<close> returns the first bucket that matches, and \<open>bucket.count++\<close> updates that
  bucket inside the array; when none matches nothing is counted.
\<close>

fun count_first :: "(Bucket \<Rightarrow> bool) \<Rightarrow> Bucket list \<Rightarrow> Bucket list" where
  "count_first P [] = []"
| "count_first P (b # bs) =
     (if P b then b\<lparr>bucket_count := bucket_count b + 1\<rparr> # bs else b # count_first P bs)"

definition edgeDistribution :: "OpportunityWithProfits list \<Rightarrow> Bucket list" where
  "edgeDistribution opportunities =
     foldl (\<lambda>counted opp. count_first (in_bucket (edge opp)) counted) buckets opportunities"

section \<open>Cross-market rows (hooks/use-cross-opportunities.ts)\<close>

text \<open>\<open>candidate.similarity ?? 0\<close>.\<close>

definition similarityOrZero :: "CrossMatchRow \<Rightarrow> real" where
  "similarityOrZero row = (case similarity (candidate row) of None \<Rightarrow> 0 | Some s \<Rightarrow> s)"

definition flattenGroups :: "CrossMatchGroup list \<Rightarrow> CrossMatchRow list" where
  "flattenGroups groups =
     concat (map (\<lambda>group.
       map (\<lambda>cand.
         \<lparr>baseMarketId = CrossMatchGroup.baseMarketId group,
          baseQuestion = CrossMatchGroup.baseQuestion group,
          baseCategory = CrossMatchGroup.baseCategory group,
          baseCloseTime = CrossMatchGroup.baseCloseTime group,
          baseUrl = CrossMatchGroup.baseUrl group,
          candidate = cand\<rparr>) (matches group)) groups)"

definition rows :: "CrossMatchGroup list \<Rightarrow> CrossMatchRow list" where
  "rows groups =
     array_sort (\<lambda>a b. Fin (similarityOrZero b - similarityOrZero a)) (flattenGroups groups)"

text \<open>
  The order the specification asks of a match list, in its words: descending by similarity,
  ties broken by candidate identifier ascending. Identifiers are compared as strings,
  character by character.
\<close>

definition similarity_then_id :: "CrossMatchRow \<Rightarrow> CrossMatchRow \<Rightarrow> bool" where
  "similarity_then_id a b =
     (similarityOrZero a > similarityOrZero b \<or>
      (similarityOrZero a = similarityOrZero b \<and>
       CrossMatchCandidate.marketId (candidate a) \<le> CrossMatchCandidate.marketId (candidate b)))"

section \<open>Reconnecting event stream (hooks/use-sse.ts)\<close>

datatype ConnectionStatus = Connected | Disconnected | Reconnecting

text \<open>
  The state the hook keeps: the status, the attempts counter of \<open>reconnectAttemptsRef\<close>,
  and the delays (milliseconds) of the timers that \<open>setTimeout\<close> was asked for, the latest
  first. The counter only ever counts up from 0, so it is a natural number; in the
  doubles of the runtime \<open>Math.pow(2, n)\<close> grows to \<open>Infinity\<close>, and \<open>Math.min\<close> with 30000
  gives what the minimum over the natural numbers gives.
\<close>

record SSEState =
  status :: ConnectionStatus
  reconnectAttempts :: nat
  scheduled :: "nat list"

definition sse_initial :: SSEState where
  "sse_initial = \<lparr>status = Disconnected, reconnectAttempts = 0, scheduled = []\<rparr>"

definition reconnectDelay :: "nat \<Rightarrow> nat" where
  "reconnectDelay n = min (1000 * 2 ^ n) 30000"

definition onopen :: "SSEState \<Rightarrow> SSEState" where
  "onopen s = s\<lparr>status := Connected, reconnectAttempts := 0\<rparr>"

definition onerror :: "SSEState \<Rightarrow> SSEState" where
  "onerror s =
     (let delay = reconnectDelay (reconnectAttempts s) in
      s\<lparr>status := Reconnecting,
        reconnectAttempts := reconnectAttempts s + 1,
        scheduled := delay # scheduled s\<rparr>)"

text \<open>
  What can happen to the hook: the stream opens, a message arrives (handed to
  \<open>onMessage\<close>, the hook's own state stays), the stream errors, a timer fires and
  \<open>connect\<close> runs again, or \<open>new EventSource\<close> throws inside \<open>connect\<close>.
\<close>

datatype SSEEvent = Open | Message | Error | TimerFired | ConnectThrows

fun sse_step :: "SSEState \<Rightarrow> SSEEvent \<Rightarrow> SSEState" where
  "sse_step s Open = onopen s"
| "sse_step s Message = s"
| "sse_step s Error = onerror s"
| "sse_step s TimerFired = s"
| "sse_step s ConnectThrows = s\<lparr>status := Disconnected\<rparr>"

text \<open>The number of errors since the last open (or since the start), in the claim's
  words; the events are listed latest first.\<close>

fun failures_since_open :: "SSEEvent list \<Rightarrow> nat" where
  "failures_since_open [] = 0"
| "failures_since_open (Open # past) = 0"
| "failures_since_open (Error # past) = Suc (failures_since_open past)"
| "failures_since_open (_ # past) = failures_since_open past"

section \<open>Initial fetch (lib/api.ts, app/page.tsx)\<close>

text \<open>
  What \<open>fetch\<close> can give \<open>getOpportunities\<close>: a rejection (network error), or a response
  with its \<open>ok\<close> flag and the result of \<open>res.json()\<close> (\<open>None\<close> when the body does not
  parse).
\<close>

datatype FetchResult = NetworkError | Response bool "Opportunity list option"

datatype Thrown = TypeError | ErrorMessage string | SyntaxError

definition getOpportunities :: "FetchResult \<Rightarrow> Thrown + Opportunity list" where
  "getOpportunities res =
     (case res of
        NetworkError \<Rightarrow> Inl TypeError
      | Response ok body \<Rightarrow>
          if \<not> ok then Inl (ErrorMessage ''Failed to fetch opportunities'')
          else (case body of None \<Rightarrow> Inl SyntaxError | Some data \<Rightarrow> Inr data))"

text \<open>\<open>Page\<close>: the \<open>initialData\<close> it hands to \<open>DashboardClient\<close>.\<close>

definition Page :: "FetchResult \<Rightarrow> Opportunity list" where
  "Page res = (case getOpportunities res of Inl error \<Rightarrow> [] | Inr initialData \<Rightarrow> initialData)"

section \<open>Market detail drawer (components/market-detail-drawer.tsx)\<close>

text \<open>
  The number the drawer formats as the underround, \<open>formatPercent(1 - opportunity.sumPrices)\<close>.
  The drawer renders nothing without an opportunity, and the line is shown only with a
  non-empty list of outcomes. The rendering of the number as text is not modelled.
\<close>

definition drawerUnderround :: "OpportunityWithProfits option \<Rightarrow> real option" where
  "drawerUnderround selectedOpportunity =
     (case selectedOpportunity of
        None \<Rightarrow> None
      | Some opp \<Rightarrow>
          (case outcomes opp of
             None \<Rightarrow> None
           | Some os \<Rightarrow> if length os > 0 then Some (1 - sumPrices opp) else None))"

section \<open>Edge computation (backend, not among the sources)\<close>

text \<open>
  Modelled from the spec: the MarketDocument of the backend, whose code is not among the
  sources. The specification: an identifier (string, unique), a question text, a category
  (optional string), a close time (optional timestamp), an ordered list of outcomes (name,
  price), a liquidity (optional non-negative number) and a content signature.
\<close>

record MarketDocument =
  doc_identifier :: string
  doc_question :: string
  doc_category :: "string option"
  doc_closeTime :: "string option"
  doc_outcomes :: "Outcome list"
  doc_liquidity :: "real option"
  doc_signature :: string

text \<open>
  Modelled from the spec: the EdgeComputer of the backend, whose code is not among the
  sources. The specification: given a MarketDocument, it returns the sum of the outcome
  prices and the edge, 1 minus the sum.
\<close>

definition edgeComputer :: "MarketDocument \<Rightarrow> real \<times> real" where
  "edgeComputer doc = (let s = sum_list (map price (doc_outcomes doc)) in (s, 1 - s))"

text \<open>
  Modelled from the spec: the derivation of an Opportunity from a MarketDocument in the
  backend, whose code is not among the sources. The specification: sum of outcome prices,
  edge = 1 - sum, outcome count, liquidity, timestamp of computation. The link and the
  timestamp are given; question, outcomes, category and close time are the document's.
\<close>

definition deriveOpportunity :: "string \<Rightarrow> string \<Rightarrow> MarketDocument \<Rightarrow> Opportunity" where
  "deriveOpportunity link now doc =
     \<lparr>Opportunity.marketId = doc_identifier doc,
      question = doc_question doc,
      sumPrices = fst (edgeComputer doc),
      edge = snd (edgeComputer doc),
      numOutcomes = real (length (doc_outcomes doc)),
      liquidity = doc_liquidity doc,
      url = link,
      updatedAt = now,
      outcomes = Some (doc_outcomes doc),
      Opportunity.category = doc_category doc,
      closeTime = doc_closeTime doc\<rparr>"

text \<open>
  Modelled from the spec: the exclusion from the snapshot in the backend, whose code is
  not among the sources. The specification: an Opportunity with edge below a configured
  minimum or liquidity below a configured minimum is excluded from the snapshot. A
  document without a liquidity has no liquidity below the minimum.
\<close>

definition excluded :: "real \<Rightarrow> real \<Rightarrow> Opportunity \<Rightarrow> bool" where
  "excluded minimumEdge minimumLiquidity opp =
     (edge opp < minimumEdge \<or>
      (case liquidity opp of None \<Rightarrow> False | Some l \<Rightarrow> l < minimumLiquidity))"

text \<open>
  Modelled from the spec: the snapshot of the backend, whose code is not among the sources:
  the opportunities derived from the documents of the catalog that are not excluded.
\<close>

definition snapshot ::
  "real \<Rightarrow> real \<Rightarrow> string \<Rightarrow> string \<Rightarrow> MarketDocument list \<Rightarrow> Opportunity list" where
  "snapshot minimumEdge minimumLiquidity link now docs =
     filter (\<lambda>opp. \<not> excluded minimumEdge minimumLiquidity opp)
       (map (deriveOpportunity link now) docs)"

section \<open>Example data\<close>

text \<open>The market of the specification's scenario, as the dashboard receives it, and as
  the document it is derived from.\<close>

definition oppA :: Opportunity where
  "oppA =
     \<lparr>Opportunity.marketId = ''A'', question = ''Will X win the election?'',
      sumPrices = 0.95, edge = 0.05, numOutcomes = 2, liquidity = Some 500,
      url = ''https://example.org/A'', updatedAt = ''2025-01-01T00:00:00Z'',
      outcomes = Some [\<lparr>name = ''Yes'', price = 0.40\<rparr>, \<lparr>name = ''No'', price = 0.55\<rparr>],
      Opportunity.category = Some ''Politics'', closeTime = Some ''2025-02-01T00:00:00Z''\<rparr>"

definition docA :: MarketDocument where
  "docA =
     \<lparr>doc_identifier = ''A'', doc_question = ''Will X win the election?'',
      doc_category = Some ''Politics'', doc_closeTime = Some ''2025-02-01T00:00:00Z'',
      doc_outcomes = [\<lparr>name = ''Yes'', price = 0.40\<rparr>, \<lparr>name = ''No'', price = 0.55\<rparr>],
      doc_liquidity = Some 500, doc_signature = ''5f2a''\<rparr>"

text \<open>Two match groups as the matching worker stores them, one candidate each, of equal
  similarity.\<close>

definition groupM1 :: CrossMatchGroup where
  "groupM1 =
     \<lparr>CrossMatchGroup.baseMarketId = ''m1'',
      CrossMatchGroup.baseQuestion = ''Will X win the election?'',
      CrossMatchGroup.baseCategory = Some ''politics'',
      CrossMatchGroup.baseCloseTime = None,
      CrossMatchGroup.baseUrl = None,
      matches =
        [\<lparr>CrossMatchCandidate.marketId = ''z'',
          CrossMatchCandidate.question = ''Will X be elected president?'',
          similarity = Some 0.9,
          CrossMatchCandidate.category = Some ''politics'',
          CrossMatchCandidate.closeTime = None,
          CrossMatchCandidate.url = None,
          timestamp = ''2025-01-01T00:00:00Z''\<rparr>]\<rparr>"

definition groupM2 :: CrossMatchGroup where
  "groupM2 =
     \<lparr>CrossMatchGroup.baseMarketId = ''m2'',
      CrossMatchGroup.baseQuestion = ''Will Y win the election?'',
      CrossMatchGroup.baseCategory = Some ''politics'',
      CrossMatchGroup.baseCloseTime = None,
      CrossMatchGroup.baseUrl = None,
      matches =
        [\<lparr>CrossMatchCandidate.marketId = ''a'',
          CrossMatchCandidate.question = ''Will Y be elected president?'',
          similarity = Some 0.9,
          CrossMatchCandidate.category = Some ''politics'',
          CrossMatchCandidate.closeTime = None,
          CrossMatchCandidate.url = None,
          timestamp = ''2025-01-01T00:00:00Z''\<rparr>]\<rparr>"

text \<open>More opportunities for the dashboard: one without a close time, one without a
  liquidity, one with an edge below one percent, one with a negative edge; and a filter
  state.\<close>

definition oppB :: Opportunity where
  "oppB =
     \<lparr>Opportunity.marketId = ''B'', question = ''Will Y win the election?'',
      sumPrices = 0.98, edge = 0.02, numOutcomes = 2, liquidity = Some 200,
      url = ''https://example.org/B'', updatedAt = ''2025-01-01T00:00:00Z'',
      outcomes = None, Opportunity.category = Some ''politics'', closeTime = None\<rparr>"

definition oppC :: Opportunity where
  "oppC =
     \<lparr>Opportunity.marketId = ''C'', question = ''Will Z win the election?'',
      sumPrices = 0.97, edge = 0.03, numOutcomes = 2, liquidity = None,
      url = ''https://example.org/C'', updatedAt = ''2025-01-01T00:00:00Z'',
      outcomes = None, Opportunity.category = Some ''politics'', closeTime = None\<rparr>"

definition oppD :: Opportunity where
  "oppD =
     \<lparr>Opportunity.marketId = ''D'', question = ''Will T win the cup?'',
      sumPrices = 0.995, edge = 0.005, numOutcomes = 2, liquidity = Some 1000,
      url = ''https://example.org/D'', updatedAt = ''2025-01-01T00:00:00Z'',
      outcomes = None, Opportunity.category = Some ''sports'', closeTime = None\<rparr>"

text \<open>Two more opportunities: one whose close time is no date, one that closes a month
  before the market of the scenario.\<close>

definition oppX :: Opportunity where
  "oppX =
     \<lparr>Opportunity.marketId = ''X'', question = ''Will V win the vote?'',
      sumPrices = 0.96, edge = 0.04, numOutcomes = 2, liquidity = Some 300,
      url = ''https://example.org/X'', updatedAt = ''2025-01-01T00:00:00Z'',
      outcomes = None, Opportunity.category = Some ''politics'',
      closeTime = Some ''not a date''\<rparr>"

definition oppE :: Opportunity where
  "oppE =
     \<lparr>Opportunity.marketId = ''E'', question = ''Will W win the vote?'',
      sumPrices = 0.97, edge = 0.03, numOutcomes = 2, liquidity = Some 400,
      url = ''https://example.org/E'', updatedAt = ''2025-01-01T00:00:00Z'',
      outcomes = None, Opportunity.category = Some ''politics'',
      closeTime = Some ''2025-01-01T00:00:00Z''\<rparr>"

text \<open>The runtime for the examples: the time values of the two timestamps that occur
  (milliseconds since the epoch), every other string being no date; and a case conversion
  of the ASCII letters.\<close>

definition exampleGetTime :: "string \<Rightarrow> real option" where
  "exampleGetTime s =
     (if s = ''2025-02-01T00:00:00Z'' then Some 1738368000000
      else if s = ''2025-01-01T00:00:00Z'' then Some 1735689600000
      else None)"

definition lower_char :: "char \<Rightarrow> char" where
  "lower_char c =
     (let n = (of_char c :: nat) in if 65 \<le> n \<and> n \<le> 90 then char_of (n + 32) else c)"

definition asciiLowerCase :: "string \<Rightarrow> string" where
  "asciiLowerCase s = map lower_char s"

definition exampleFilters :: "SortBy \<Rightarrow> SortOrder \<Rightarrow> FilterState" where
  "exampleFilters selected order =
     \<lparr>minEdge = 0.01, maxEdge = 1, minLiquidity = 100, category = ''politics'',
      sortBy = selected, sortOrder = order\<rparr>"

definition oppN :: Opportunity where
  "oppN =
     \<lparr>Opportunity.marketId = ''N'', question = ''Will U win the cup?'',
      sumPrices = 1.02, edge = - 0.02, numOutcomes = 2, liquidity = Some 1000,
      url = ''https://example.org/N'', updatedAt = ''2025-01-01T00:00:00Z'',
      outcomes = None, Opportunity.category = Some ''sports'', closeTime = None\<rparr>"

section \<open>Properties of the opportunity map\<close>

lemma map_of_map_set: "map_of (map_set k v m) = (map_of m)(k \<mapsto> v)"
  by (induction m) (auto simp: fun_eq_iff)

lemma map_of_map_delete: "map_of (map_delete k m) = (map_of m)(k := None)"
  by (induction m) (auto simp: map_delete_def fun_eq_iff)

lemma map_set_idem: "map_set k v (map_set k v m) = map_set k v m"
  by (induction m) auto

lemma map_delete_idem: "map_delete k (map_delete k m) = map_delete k m"
  by (simp add: map_delete_def)

lemma keys_map_set:
  "map fst (map_set k v m) = (if k \<in> set (map fst m) then map fst m else map fst m @ [k])"
proof (induction m)
  case Nil
  show ?case by simp
next
  case (Cons p m)
  then show ?case by (cases p) (force simp: image_iff)
qed

lemma distinct_map_set: "distinct (map fst m) \<Longrightarrow> distinct (map fst (map_set k v m))"
  by (simp add: keys_map_set)

lemma distinct_map_delete: "distinct (map fst m) \<Longrightarrow> distinct (map fst (map_delete k m))"
  by (simp add: map_delete_def distinct_map_filter)

text \<open>The keys of the map stay distinct, as the keys of a \<open>Map\<close> are.\<close>

lemma distinct_handleSSEMessage:
  "distinct (map fst prev) \<Longrightarrow> distinct (map fst (handleSSEMessage message prev))"
  by (simp add: handleSSEMessage_def distinct_map_set distinct_map_delete)

lemma distinct_initialOpportunities: "distinct (map fst (initialOpportunities initialData))"
proof -
  have "distinct (map fst m) \<Longrightarrow>
      distinct (map fst (foldl (\<lambda>m opp. map_set (Opportunity.marketId opp) opp m) m xs))"
    for m :: OpportunityMap and xs
    by (induction xs arbitrary: m) (simp_all add: distinct_map_set)
  then show ?thesis by (simp add: initialOpportunities_def)
qed

lemma handleSSEMessage_null_upsert:
  "type message = Upsert \<Longrightarrow> opportunity message = None \<Longrightarrow>
     handleSSEMessage message prev = prev"
  by (simp add: handleSSEMessage_def)

text \<open>
  Claim C1. For every opportunity map and every stream message: an upsert that carries an
  opportunity yields a map that binds the message's \<open>marketId\<close> to exactly that
  opportunity; a remove yields a map without that \<open>marketId\<close>; and every entry under
  another key is as it was.
\<close>

theorem handleSSEMessage_binds:
  "(type message = Upsert \<and> opportunity message = Some opp \<longrightarrow>
      map_of (handleSSEMessage message prev) (marketId message) = Some opp) \<and>
   (type message = Remove \<longrightarrow>
      map_of (handleSSEMessage message prev) (marketId message) = None) \<and>
   (k \<noteq> marketId message \<longrightarrow>
      map_of (handleSSEMessage message prev) k = map_of prev k)"
  by (simp add: handleSSEMessage_def map_of_map_set map_of_map_delete)

theorem handleSSEMessage_binds_witness:
  "map_of (handleSSEMessage \<lparr>type = Upsert, marketId = ''A'', opportunity = Some oppA\<rparr>
      [(''B'', oppA)]) ''A'' = Some oppA \<and>
   map_of (handleSSEMessage \<lparr>type = Remove, marketId = ''B'', opportunity = None\<rparr>
      [(''B'', oppA)]) ''B'' = None \<and>
   map_of (handleSSEMessage \<lparr>type = Upsert, marketId = ''A'', opportunity = Some oppA\<rparr>
      [(''B'', oppA)]) ''B'' = Some oppA"
  using
    handleSSEMessage_binds [of "\<lparr>type = Upsert, marketId = ''A'', opportunity = Some oppA\<rparr>"
      oppA "[(''B'', oppA)]" "''B''"]
    handleSSEMessage_binds [of "\<lparr>type = Remove, marketId = ''B'', opportunity = None\<rparr>"
      oppA "[(''B'', oppA)]" "''A''"]
  by simp

text \<open>
  Claim C5. Applying \<open>handleSSEMessage\<close> for the same message twice in succession gives
  the state that applying it once gives, for every map and every message: a duplicated
  delivery changes nothing. The equality is one of insertion-ordered maps, so the order
  of the entries is the same as well.
\<close>

theorem handleSSEMessage_idempotent:
  "handleSSEMessage message (handleSSEMessage message prev) = handleSSEMessage message prev"
  by (cases "type message"; cases "opportunity message")
    (simp_all add: handleSSEMessage_def map_set_idem map_delete_idem)

text \<open>
  Claim C6. An upsert whose opportunity is null leaves the map exactly as it was, and a
  stream of messages with such a message in it is processed as the stream without it.
\<close>

theorem malformed_upsert_skipped:
  assumes "type message = Upsert" and "opportunity message = None"
  shows "handleSSEMessage message prev = prev \<and>
     foldl (\<lambda>m msg. handleSSEMessage msg m) prev (before @ message # after) =
     foldl (\<lambda>m msg. handleSSEMessage msg m) prev (before @ after)"
  using assms by (simp add: handleSSEMessage_null_upsert)

theorem malformed_upsert_skipped_witness:
  "handleSSEMessage \<lparr>type = Upsert, marketId = ''A'', opportunity = None\<rparr> [(''B'', oppA)]
     = [(''B'', oppA)] \<and>
   foldl (\<lambda>m msg. handleSSEMessage msg m) [(''B'', oppA)]
     ([\<lparr>type = Remove, marketId = ''B'', opportunity = None\<rparr>] @
       \<lparr>type = Upsert, marketId = ''A'', opportunity = None\<rparr> #
       [\<lparr>type = Upsert, marketId = ''C'', opportunity = Some oppA\<rparr>])
     = [(''C'', oppA)]"
  using malformed_upsert_skipped
    [of "\<lparr>type = Upsert, marketId = ''A'', opportunity = None\<rparr>" "[(''B'', oppA)]"
      "[\<lparr>type = Remove, marketId = ''B'', opportunity = None\<rparr>]"
      "[\<lparr>type = Upsert, marketId = ''C'', opportunity = Some oppA\<rparr>]"]
  by (simp add: handleSSEMessage_def map_delete_def)

section \<open>Properties of the reconnecting stream\<close>

lemma reconnectDelay_mono: "m \<le> n \<Longrightarrow> reconnectDelay m \<le> reconnectDelay n"
  by (simp add: reconnectDelay_def min_le_iff_disj power_increasing)

lemma attempts_trace:
  "reconnectAttempts (foldl sse_step s events) =
     (if Open \<in> set events then 0 else reconnectAttempts s) + failures_since_open (rev events)"
proof (induction events rule: rev_induct)
  case Nil
  show ?case by simp
next
  case (snoc e events)
  then show ?case by (cases e) (simp_all add: onopen_def onerror_def Let_def)
qed

lemma consecutive_errors:
  "scheduled (foldl sse_step s (replicate k Error)) =
     map (\<lambda>i. reconnectDelay (reconnectAttempts s + i)) (rev [0..<k]) @ scheduled s \<and>
   reconnectAttempts (foldl sse_step s (replicate k Error)) = reconnectAttempts s + k"
proof (induction k)
  case 0
  show ?case by simp
next
  case (Suc k)
  have "replicate (Suc k) Error = replicate k Error @ [Error]"
    by (simp add: replicate_append_same)
  with Suc show ?case
    by (simp add: onerror_def Let_def del: replicate_Suc)
qed

lemma sorted_delays: "sorted (map (\<lambda>i. reconnectDelay (n + i)) [0..<k])"
  by (simp add: sorted_map sorted_wrt_iff_nth_less reconnectDelay_mono)

lemma reconnect_schedule_example:
  "map reconnectDelay [0, 1, 2, 3, 4, 5, 6] = [1000, 2000, 4000, 8000, 16000, 30000, 30000]"
  by (simp add: reconnectDelay_def)

text \<open>
  Claim C7. When the stream errors in a state with counter \<open>n\<close>, the timer is set to
  \<open>min(1000 * 2^n, 30000)\<close> milliseconds and the counter becomes \<open>n + 1\<close>; an open sets the
  counter to 0; so after any run of events from the start the counter is the number of
  errors since the last open. The delay never exceeds 30000 and does not decrease from
  one failure to the next: \<open>k\<close> errors in a row set the timers
  \<open>reconnectDelay n, ..., reconnectDelay (n + k - 1)\<close>, an ascending list.
\<close>

theorem reconnect_backoff:
  "scheduled (onerror s) = min (1000 * 2 ^ reconnectAttempts s) 30000 # scheduled s \<and>
   reconnectAttempts (onerror s) = reconnectAttempts s + 1 \<and>
   reconnectAttempts (onopen s) = 0 \<and>
   reconnectAttempts (foldl sse_step sse_initial events) = failures_since_open (rev events) \<and>
   reconnectDelay n \<le> 30000 \<and>
   reconnectDelay n \<le> reconnectDelay (n + 1) \<and>
   scheduled (foldl sse_step s (replicate k Error)) =
     rev (map (\<lambda>i. reconnectDelay (reconnectAttempts s + i)) [0..<k]) @ scheduled s \<and>
   sorted (map (\<lambda>i. reconnectDelay (reconnectAttempts s + i)) [0..<k])"
proof -
  have "reconnectAttempts (foldl sse_step sse_initial events) = failures_since_open (rev events)"
    using attempts_trace [of sse_initial events] by (simp add: sse_initial_def)
  moreover have "reconnectDelay n \<le> 30000"
    by (simp add: reconnectDelay_def)
  moreover have "reconnectDelay n \<le> reconnectDelay (n + 1)"
    by (rule reconnectDelay_mono) simp
  ultimately show ?thesis
    using consecutive_errors [of s k] sorted_delays [of "reconnectAttempts s" k]
    by (simp add: onerror_def onopen_def reconnectDelay_def Let_def rev_map)
qed

section \<open>Properties of the initial fetch\<close>

text \<open>
  Claim C8. A network error and a response that is not OK both make \<open>getOpportunities\<close>
  throw; whenever it throws, the page hands the empty list to the dashboard and the
  client's map starts empty. The page's initial data is the empty list or the whole
  parsed body of an OK response, never a part of it.
\<close>

theorem Page_failed_fetch_empty:
  "getOpportunities NetworkError = Inl TypeError \<and>
   getOpportunities (Response False body) = Inl (ErrorMessage ''Failed to fetch opportunities'') \<and>
   (getOpportunities res = Inl thrown \<longrightarrow>
      Page res = [] \<and> initialOpportunities (Page res) = []) \<and>
   (Page res = [] \<or> (\<exists>data. res = Response True (Some data) \<and> Page res = data))"
  by (auto simp: Page_def getOpportunities_def initialOpportunities_def
      split: FetchResult.splits option.splits)

theorem Page_failed_fetch_empty_witness:
  "Page (Response False (Some [oppA])) = [] \<and>
   initialOpportunities (Page (Response False (Some [oppA]))) = [] \<and>
   Page NetworkError = [] \<and> initialOpportunities (Page NetworkError) = []"
  using
    Page_failed_fetch_empty [of "Some [oppA]" "Response False (Some [oppA])"
      "ErrorMessage ''Failed to fetch opportunities''"]
    Page_failed_fetch_empty [of None NetworkError TypeError]
  by (simp add: initialOpportunities_def)

section \<open>Properties of the profits\<close>

text \<open>
  Claim C9. \<open>calculateProfits\<close> keeps every field of the opportunity (cutting the result back
  to an \<open>Opportunity\<close> gives the argument) and adds the four profit fields, the edge times
  10, 100, 1000 and 10000.
\<close>

theorem calculateProfits_frame:
  "Opportunity.truncate (calculateProfits opp) = opp \<and>
   profitAt10 (calculateProfits opp) = edge opp * 10 \<and>
   profitAt100 (calculateProfits opp) = edge opp * 100 \<and>
   profitAt1000 (calculateProfits opp) = edge opp * 1000 \<and>
   profitAt10000 (calculateProfits opp) = edge opp * 10000"
  by (simp add: calculateProfits_def Let_def Opportunity.defs OpportunityWithProfits.defs)

section \<open>Properties of the sort\<close>

lemma mset_insert_sorted: "mset (insert_sorted c x ys) = add_mset x (mset ys)"
  by (induction ys) simp_all

lemma mset_array_sort: "mset (array_sort c xs) = mset xs"
  by (induction xs) (simp_all add: array_sort_def mset_insert_sorted)

lemma set_insert_sorted: "set (insert_sorted c x ys) = insert x (set ys)"
  by (induction ys) auto

lemma set_array_sort: "set (array_sort c xs) = set xs"
  by (induction xs) (simp_all add: array_sort_def set_insert_sorted)

text \<open>The sort sorts by every relation that the comparator decides and that is total and
  transitive on the elements of the list.\<close>

lemma sorted_wrt_insert_sorted_on:
  assumes total: "\<And>a b. a \<in> A \<Longrightarrow> b \<in> A \<Longrightarrow> le a b \<or> le b a"
    and trans: "\<And>a b d. a \<in> A \<Longrightarrow> b \<in> A \<Longrightarrow> d \<in> A \<Longrightarrow> le a b \<Longrightarrow> le b d \<Longrightarrow> le a d"
    and le: "\<And>a b. a \<in> A \<Longrightarrow> b \<in> A \<Longrightarrow> not_after (c a b) = le a b"
    and x: "x \<in> A"
  shows "set ys \<subseteq> A \<Longrightarrow> sorted_wrt le ys \<Longrightarrow> sorted_wrt le (insert_sorted c x ys)"
proof (induction ys)
  case Nil
  show ?case by simp
next
  case (Cons y ys)
  from Cons.prems have y: "y \<in> A" and ys: "set ys \<subseteq> A" by auto
  show ?case
  proof (cases "le x y")
    case True
    have "le x z" if "z \<in> set ys" for z
    proof -
      from that Cons.prems have "le y z" by simp
      with True show ?thesis using trans x y ys that by blast
    qed
    with True Cons.prems x y show ?thesis by (simp add: le)
  next
    case False
    with total x y have "le y x" by blast
    with False Cons x y ys show ?thesis by (simp add: le set_insert_sorted)
  qed
qed

lemma sorted_wrt_array_sort_on:
  assumes "\<And>a b. a \<in> A \<Longrightarrow> b \<in> A \<Longrightarrow> le a b \<or> le b a"
    and "\<And>a b d. a \<in> A \<Longrightarrow> b \<in> A \<Longrightarrow> d \<in> A \<Longrightarrow> le a b \<Longrightarrow> le b d \<Longrightarrow> le a d"
    and "\<And>a b. a \<in> A \<Longrightarrow> b \<in> A \<Longrightarrow> not_after (c a b) = le a b"
  shows "set xs \<subseteq> A \<Longrightarrow> sorted_wrt le (array_sort c xs)"
proof (induction xs)
  case Nil
  show ?case by (simp add: array_sort_def)
next
  case (Cons x xs)
  then have "x \<in> A" and "set (array_sort c xs) \<subseteq> A" and "sorted_wrt le (array_sort c xs)"
    by (simp_all add: set_array_sort)
  with assms have "sorted_wrt le (insert_sorted c x (array_sort c xs))"
    by (rule sorted_wrt_insert_sorted_on)
  then show ?case by (simp add: array_sort_def)
qed

lemma sorted_wrt_array_sort:
  assumes "\<And>a b. le a b \<or> le b a"
    and "\<And>a b d. le a b \<Longrightarrow> le b d \<Longrightarrow> le a d"
    and "\<And>a b. not_after (c a b) = le a b"
  shows "sorted_wrt le (array_sort c xs)"
  by (rule sorted_wrt_array_sort_on [where A = UNIV]) (use assms in auto)

lemma filter_insert_sorted:
  assumes "\<And>y. P x \<Longrightarrow> y \<in> set ys \<Longrightarrow> P y \<Longrightarrow> not_after (c x y)"
  shows "filter P (insert_sorted c x ys) = (if P x then x # filter P ys else filter P ys)"
  using assms by (induction ys) auto

lemma array_sort_stable:
  assumes "\<And>x y. P x \<Longrightarrow> P y \<Longrightarrow> not_after (c x y)"
  shows "filter P (array_sort c xs) = filter P xs"
proof (induction xs)
  case Nil
  show ?case by (simp add: array_sort_def)
next
  case (Cons x xs)
  have "filter P (insert_sorted c x (array_sort c xs)) =
      (if P x then x # filter P (array_sort c xs) else filter P (array_sort c xs))"
    by (rule filter_insert_sorted) (rule assms)
  with Cons show ?case by (simp add: array_sort_def)
qed

lemma not_after_js_minus: "a \<noteq> NaN \<Longrightarrow> b \<noteq> NaN \<Longrightarrow> not_after (js_minus a b) = js_le a b"
  by (cases a; cases b) (auto simp: not_after_def js_le_def)

lemma js_le_total: "a \<noteq> NaN \<Longrightarrow> b \<noteq> NaN \<Longrightarrow> js_le a b \<or> js_le b a"
  by (cases a; cases b) (auto simp: js_le_def)

lemma js_le_trans: "js_le a b \<Longrightarrow> js_le b d \<Longrightarrow> js_le a d"
  by (cases a; cases b; cases d) (auto simp: js_le_def)

text \<open>The value the comparator subtracts is a number unless the close time is asked for
  and is no date.\<close>

lemma sortValue_not_NaN:
  assumes "selected = SortCloseTime \<longrightarrow>
    (\<forall>s. Opportunity.closeTime a = Some s \<and> s \<noteq> [] \<longrightarrow> getTime s \<noteq> None)"
  shows "sortValue getTime selected a \<noteq> NaN"
  using assms by (cases selected) (auto simp: sortValue_def split: option.splits)

lemma js_le_sortValue:
  assumes "sortValue getTime selected a \<noteq> NaN" and "sortValue getTime selected b \<noteq> NaN"
  shows "js_le (sortValue getTime selected a) (sortValue getTime selected b) =
    (case selected of
       SortEdge \<Rightarrow> edge a \<le> edge b
     | SortProfitAt1000 \<Rightarrow> profitAt1000 a \<le> profitAt1000 b
     | SortLiquidity \<Rightarrow>
         (case liquidity a of None \<Rightarrow> 0 | Some l \<Rightarrow> l)
           \<le> (case liquidity b of None \<Rightarrow> 0 | Some l \<Rightarrow> l)
     | SortCloseTime \<Rightarrow> closeTimeAtMost getTime a b)"
  using assms
  by (cases selected)
    (auto simp: sortValue_def js_le_def liquidityOrZero_def closeTimeAtMost_def
      split: option.splits if_splits)

section \<open>Properties of the cross-market rows\<close>

text \<open>
  Claim C2, as amended. The rows are the flattened (base, candidate) pairs of the fetched
  groups, sorted descending by similarity (an absent similarity counts as 0). Rows of
  equal similarity keep the order they have in the flattened collection: group after
  group, and inside a group the order of its match list. The candidate identifier plays
  no part in the order.
\<close>

theorem rows_sorted_stable:
  "sorted_wrt (\<lambda>a b. similarityOrZero a \<ge> similarityOrZero b) (rows groups) \<and>
   mset (rows groups) = mset (flattenGroups groups) \<and>
   filter (\<lambda>r. similarityOrZero r = s) (rows groups) =
     filter (\<lambda>r. similarityOrZero r = s) (flattenGroups groups)"
proof -
  have "sorted_wrt (\<lambda>a b. similarityOrZero a \<ge> similarityOrZero b) (rows groups)"
    unfolding rows_def by (rule sorted_wrt_array_sort) (auto simp: not_after_def)
  moreover have "filter (\<lambda>r. similarityOrZero r = s) (rows groups) =
      filter (\<lambda>r. similarityOrZero r = s) (flattenGroups groups)"
    unfolding rows_def by (rule array_sort_stable) (simp add: not_after_def)
  ultimately show ?thesis by (simp add: rows_def mset_array_sort)
qed

text \<open>
  Claim C2, as stated, fails. Two groups, each with one candidate of similarity 0.9: the
  candidate \<open>z\<close> of the first group stays before the candidate \<open>a\<close> of the second, so the
  tie is not broken by candidate identifier ascending.
\<close>

theorem rows_tie_break_counterexample:
  "map (CrossMatchCandidate.marketId \<circ> candidate) (rows [groupM1, groupM2]) = [''z'', ''a''] \<and>
   map similarityOrZero (rows [groupM1, groupM2]) = [0.9, 0.9] \<and>
   \<not> sorted_wrt similarity_then_id (rows [groupM1, groupM2])"
  by (simp add: rows_def flattenGroups_def array_sort_def groupM1_def groupM2_def
      not_after_def similarityOrZero_def similarity_then_id_def)

section \<open>Properties of filtering and sorting\<close>

text \<open>
  Claim C3, as stated, fails on a close time that is no date. The map holds A (closes 1
  February), X (close time \<open>not a date\<close>) and E (closes 1 January), in that order, all
  three pass the filters, and the list is asked for by close time, ascending. Every
  comparison with X gives \<open>NaN\<close>, a tie, so the list comes back as A, X, E: A stands
  before E although E closes first. With the order of \<open>DEFAULT_FILTERS\<close>, descending,
  the map E, X, A comes back as E, X, A in the same way.
\<close>

theorem filteredAndSorted_unparsed_counterexample:
  "filteredAndSorted asciiLowerCase exampleGetTime
      [(''A'', oppA), (''X'', oppX), (''E'', oppE)]
      (DEFAULT_FILTERS\<lparr>sortBy := SortCloseTime, sortOrder := Asc\<rparr>)
     = [calculateProfits oppA, calculateProfits oppX, calculateProfits oppE] \<and>
   \<not> closeTimeAtMost exampleGetTime (calculateProfits oppA) (calculateProfits oppE) \<and>
   \<not> sorted_wrt (closeTimeAtMost exampleGetTime)
       (filteredAndSorted asciiLowerCase exampleGetTime
         [(''A'', oppA), (''X'', oppX), (''E'', oppE)]
         (DEFAULT_FILTERS\<lparr>sortBy := SortCloseTime, sortOrder := Asc\<rparr>)) \<and>
   filteredAndSorted asciiLowerCase exampleGetTime
      [(''E'', oppE), (''X'', oppX), (''A'', oppA)]
      (DEFAULT_FILTERS\<lparr>sortBy := SortCloseTime\<rparr>)
     = [calculateProfits oppE, calculateProfits oppX, calculateProfits oppA]"
  by (simp add: filteredAndSorted_def array_sort_def passesFilters_def calculateProfits_def
      compareOpportunities_def sortValue_def not_after_def closeTimeAtMost_def
      liquidityOrZero_def DEFAULT_FILTERS_def exampleGetTime_def oppA_def oppX_def oppE_def
      Let_def Opportunity.defs OpportunityWithProfits.defs)

text \<open>
  Claim C3, as amended. The list the hook returns holds exactly the stored opportunities
  (with their profits) whose edge lies between \<open>minEdge\<close> and \<open>maxEdge\<close>, whose liquidity
  (0 when absent) is at least \<open>minLiquidity\<close> whenever \<open>minLiquidity\<close> is positive, and
  whose category equals the filter's up to case (the runtime's \<open>toLowerCase\<close> gives the
  same for both) unless the filter's category is \<open>all\<close>, each as often as it is stored.
  The list is sorted by the selected key in the selected order: by edge, by the profit
  at 1000, by the liquidity (0 when absent), or by the close time with a missing close
  time as positive infinity. For the close time this holds when every close time in the
  list is a date.
\<close>

theorem filteredAndSorted_spec:
  "mset (filteredAndSorted toLowerCase getTime opportunities filters) =
     image_mset calculateProfits
       (filter_mset
         (\<lambda>opp. minEdge filters \<le> edge opp \<and> edge opp \<le> maxEdge filters \<and>
            (minLiquidity filters > 0 \<longrightarrow>
               (case liquidity opp of None \<Rightarrow> 0 | Some l \<Rightarrow> l) \<ge> minLiquidity filters) \<and>
            (FilterState.category filters \<noteq> ''all'' \<longrightarrow>
               (\<exists>c. Opportunity.category opp = Some c \<and>
                  toLowerCase c = toLowerCase (FilterState.category filters))))
         (mset (map snd opportunities))) \<and>
   ((sortBy filters = SortCloseTime \<longrightarrow>
       (\<forall>a \<in> set (filteredAndSorted toLowerCase getTime opportunities filters).
          \<forall>s. Opportunity.closeTime a = Some s \<and> s \<noteq> [] \<longrightarrow> getTime s \<noteq> None)) \<longrightarrow>
    sorted_wrt
      (\<lambda>a b. case sortBy filters of
           SortEdge \<Rightarrow>
             if sortOrder filters = Desc then edge b \<le> edge a else edge a \<le> edge b
         | SortProfitAt1000 \<Rightarrow>
             if sortOrder filters = Desc then profitAt1000 b \<le> profitAt1000 a
             else profitAt1000 a \<le> profitAt1000 b
         | SortLiquidity \<Rightarrow>
             if sortOrder filters = Desc
             then (case liquidity b of None \<Rightarrow> 0 | Some l \<Rightarrow> l)
                    \<le> (case liquidity a of None \<Rightarrow> 0 | Some l \<Rightarrow> l)
             else (case liquidity a of None \<Rightarrow> 0 | Some l \<Rightarrow> l)
                    \<le> (case liquidity b of None \<Rightarrow> 0 | Some l \<Rightarrow> l)
         | SortCloseTime \<Rightarrow>
             if sortOrder filters = Desc then closeTimeAtMost getTime b a
             else closeTimeAtMost getTime a b)
      (filteredAndSorted toLowerCase getTime opportunities filters))"
proof -
  let ?xs = "filter (passesFilters toLowerCase filters)
    (map calculateProfits (map snd opportunities))"
  let ?R = "filteredAndSorted toLowerCase getTime opportunities filters"
  let ?key = "sortValue getTime (sortBy filters)"
  let ?le = "\<lambda>a b. if sortOrder filters = Desc then js_le (?key b) (?key a)
    else js_le (?key a) (?key b)"
  have pass: "passesFilters toLowerCase filters (calculateProfits opp) =
      (minEdge filters \<le> edge opp \<and> edge opp \<le> maxEdge filters \<and>
        (minLiquidity filters > 0 \<longrightarrow>
           (case liquidity opp of None \<Rightarrow> 0 | Some l \<Rightarrow> l) \<ge> minLiquidity filters) \<and>
        (FilterState.category filters \<noteq> ''all'' \<longrightarrow>
           (\<exists>c. Opportunity.category opp = Some c \<and>
              toLowerCase c = toLowerCase (FilterState.category filters))))" for opp
    by (cases "Opportunity.category opp")
      (auto simp: passesFilters_def liquidityOrZero_def calculateProfits_def Let_def
        Opportunity.defs OpportunityWithProfits.defs)
  have "mset ?xs =
      image_mset calculateProfits
        (filter_mset (\<lambda>opp. passesFilters toLowerCase filters (calculateProfits opp))
          (mset (map snd opportunities)))"
    by (simp add: filter_map comp_def flip: mset_filter mset_map)
  then have "mset ?R =
      image_mset calculateProfits
        (filter_mset (\<lambda>opp. passesFilters toLowerCase filters (calculateProfits opp))
          (mset (map snd opportunities)))"
    by (simp add: filteredAndSorted_def mset_array_sort)
  then have members: "mset ?R =
     image_mset calculateProfits
       (filter_mset
         (\<lambda>opp. minEdge filters \<le> edge opp \<and> edge opp \<le> maxEdge filters \<and>
            (minLiquidity filters > 0 \<longrightarrow>
               (case liquidity opp of None \<Rightarrow> 0 | Some l \<Rightarrow> l) \<ge> minLiquidity filters) \<and>
            (FilterState.category filters \<noteq> ''all'' \<longrightarrow>
               (\<exists>c. Opportunity.category opp = Some c \<and>
                  toLowerCase c = toLowerCase (FilterState.category filters))))
         (mset (map snd opportunities)))"
    by (simp only: pass)
  have R: "?R = array_sort (compareOpportunities getTime filters) ?xs"
    by (simp add: filteredAndSorted_def)
  have sorted: "sorted_wrt
      (\<lambda>a b. case sortBy filters of
           SortEdge \<Rightarrow>
             if sortOrder filters = Desc then edge b \<le> edge a else edge a \<le> edge b
         | SortProfitAt1000 \<Rightarrow>
             if sortOrder filters = Desc then profitAt1000 b \<le> profitAt1000 a
             else profitAt1000 a \<le> profitAt1000 b
         | SortLiquidity \<Rightarrow>
             if sortOrder filters = Desc
             then (case liquidity b of None \<Rightarrow> 0 | Some l \<Rightarrow> l)
                    \<le> (case liquidity a of None \<Rightarrow> 0 | Some l \<Rightarrow> l)
             else (case liquidity a of None \<Rightarrow> 0 | Some l \<Rightarrow> l)
                    \<le> (case liquidity b of None \<Rightarrow> 0 | Some l \<Rightarrow> l)
         | SortCloseTime \<Rightarrow>
             if sortOrder filters = Desc then closeTimeAtMost getTime b a
             else closeTimeAtMost getTime a b) ?R"
    if dates: "sortBy filters = SortCloseTime \<longrightarrow>
       (\<forall>a \<in> set ?R. \<forall>s. Opportunity.closeTime a = Some s \<and> s \<noteq> [] \<longrightarrow> getTime s \<noteq> None)"
  proof -
    have number: "?key a \<noteq> NaN" if "a \<in> set ?xs" for a
    proof (rule sortValue_not_NaN)
      from that have "a \<in> set ?R" by (simp add: R set_array_sort)
      with dates show "sortBy filters = SortCloseTime \<longrightarrow>
          (\<forall>s. Opportunity.closeTime a = Some s \<and> s \<noteq> [] \<longrightarrow> getTime s \<noteq> None)"
        by blast
    qed
    have "sorted_wrt ?le (array_sort (compareOpportunities getTime filters) ?xs)"
    proof (rule sorted_wrt_array_sort_on [where A = "set ?xs"])
      show "?le a b \<or> ?le b a" if "a \<in> set ?xs" "b \<in> set ?xs" for a b
        using js_le_total [OF number [OF that(1)] number [OF that(2)]] by auto
      show "?le a d" if "?le a b" "?le b d" for a b d
        using that by (auto intro: js_le_trans split: if_splits)
      show "not_after (compareOpportunities getTime filters a b) = ?le a b"
        if "a \<in> set ?xs" "b \<in> set ?xs" for a b
        using number [OF that(1)] number [OF that(2)]
        by (simp add: compareOpportunities_def Let_def not_after_js_minus)
      show "set ?xs \<subseteq> set ?xs" by simp
    qed
    then have "sorted_wrt ?le ?R" by (simp only: R)
    then show ?thesis
    proof (rule sorted_wrt_mono_rel [rotated])
      fix a b
      assume "a \<in> set ?R" and "b \<in> set ?R" and le: "?le a b"
      then have "?key a \<noteq> NaN" and "?key b \<noteq> NaN"
        by (simp_all add: R set_array_sort number)
      with le show "case sortBy filters of
           SortEdge \<Rightarrow>
             if sortOrder filters = Desc then edge b \<le> edge a else edge a \<le> edge b
         | SortProfitAt1000 \<Rightarrow>
             if sortOrder filters = Desc then profitAt1000 b \<le> profitAt1000 a
             else profitAt1000 a \<le> profitAt1000 b
         | SortLiquidity \<Rightarrow>
             if sortOrder filters = Desc
             then (case liquidity b of None \<Rightarrow> 0 | Some l \<Rightarrow> l)
                    \<le> (case liquidity a of None \<Rightarrow> 0 | Some l \<Rightarrow> l)
             else (case liquidity a of None \<Rightarrow> 0 | Some l \<Rightarrow> l)
                    \<le> (case liquidity b of None \<Rightarrow> 0 | Some l \<Rightarrow> l)
         | SortCloseTime \<Rightarrow>
             if sortOrder filters = Desc then closeTimeAtMost getTime b a
             else closeTimeAtMost getTime a b"
        by (cases "sortBy filters"; cases "sortOrder filters")
          (simp_all add: js_le_sortValue)
    qed
  qed
  from members sorted show ?thesis by blast
qed

lemma example_filtered:
  "filteredAndSorted asciiLowerCase exampleGetTime
      [(''B'', oppB), (''C'', oppC), (''A'', oppA), (''D'', oppD)]
      (exampleFilters SortCloseTime Asc)
     = [calculateProfits oppA, calculateProfits oppB]"
  by (simp add: filteredAndSorted_def array_sort_def passesFilters_def calculateProfits_def
      compareOpportunities_def sortValue_def not_after_def liquidityOrZero_def
      exampleFilters_def exampleGetTime_def asciiLowerCase_def lower_char_def char_of_eq_iff
      oppA_def oppB_def oppC_def oppD_def Let_def Opportunity.defs OpportunityWithProfits.defs)

theorem filteredAndSorted_spec_witness:
  "mset (filteredAndSorted asciiLowerCase exampleGetTime
      [(''B'', oppB), (''C'', oppC), (''A'', oppA), (''D'', oppD)]
      (exampleFilters SortCloseTime Asc)) =
     {#calculateProfits oppA, calculateProfits oppB#} \<and>
   sorted_wrt (closeTimeAtMost exampleGetTime)
     (filteredAndSorted asciiLowerCase exampleGetTime
       [(''B'', oppB), (''C'', oppC), (''A'', oppA), (''D'', oppD)]
       (exampleFilters SortCloseTime Asc)) \<and>
   sorted_wrt (\<lambda>a b. edge b \<le> edge a)
     (filteredAndSorted asciiLowerCase exampleGetTime
       [(''B'', oppB), (''C'', oppC), (''A'', oppA), (''D'', oppD)]
       (exampleFilters SortEdge Desc))"
proof -
  have "filter_mset
         (\<lambda>opp. minEdge (exampleFilters SortCloseTime Asc) \<le> edge opp \<and>
            edge opp \<le> maxEdge (exampleFilters SortCloseTime Asc) \<and>
            (minLiquidity (exampleFilters SortCloseTime Asc) > 0 \<longrightarrow>
               (case liquidity opp of None \<Rightarrow> 0 | Some l \<Rightarrow> l)
                 \<ge> minLiquidity (exampleFilters SortCloseTime Asc)) \<and>
            (FilterState.category (exampleFilters SortCloseTime Asc) \<noteq> ''all'' \<longrightarrow>
               (\<exists>c. Opportunity.category opp = Some c \<and>
                  asciiLowerCase c =
                    asciiLowerCase (FilterState.category (exampleFilters SortCloseTime Asc)))))
         (mset (map snd [(''B'', oppB), (''C'', oppC), (''A'', oppA), (''D'', oppD)]))
      = {#oppA, oppB#}"
    by (simp add: oppA_def oppB_def oppC_def oppD_def exampleFilters_def
        asciiLowerCase_def lower_char_def char_of_eq_iff)
  moreover have "\<forall>a \<in> set (filteredAndSorted asciiLowerCase exampleGetTime
        [(''B'', oppB), (''C'', oppC), (''A'', oppA), (''D'', oppD)]
        (exampleFilters SortCloseTime Asc)).
      \<forall>s. Opportunity.closeTime a = Some s \<and> s \<noteq> [] \<longrightarrow> exampleGetTime s \<noteq> None"
    by (simp add: example_filtered)
      (simp add: calculateProfits_def oppA_def oppB_def exampleGetTime_def Let_def
        Opportunity.defs OpportunityWithProfits.defs)
  moreover have "sortBy (exampleFilters selected order) = selected"
    "sortOrder (exampleFilters selected order) = order" for selected order
    by (simp_all add: exampleFilters_def)
  ultimately show ?thesis
    using
      filteredAndSorted_spec [of asciiLowerCase exampleGetTime
        "[(''B'', oppB), (''C'', oppC), (''A'', oppA), (''D'', oppD)]"
        "exampleFilters SortCloseTime Asc"]
      filteredAndSorted_spec [of asciiLowerCase exampleGetTime
        "[(''B'', oppB), (''C'', oppC), (''A'', oppA), (''D'', oppD)]"
        "exampleFilters SortEdge Desc"]
    by simp
qed

section \<open>Properties of the edge distribution\<close>

lemma buckets_partition: "length (filter (in_bucket e) buckets) = (if 0 \<le> e then 1 else 0)"
  by (simp add: buckets_def in_bucket_def)

lemma count_first_buckets:
  "count_first (in_bucket e) (map (\<lambda>b. b\<lparr>bucket_count := c b\<rparr>) buckets) =
     map (\<lambda>b. b\<lparr>bucket_count := c b + (if in_bucket e b then 1 else 0)\<rparr>) buckets"
  by (simp add: buckets_def in_bucket_def)

lemma edgeDistribution_closed:
  "edgeDistribution opps =
     map (\<lambda>b. b\<lparr>bucket_count := length (filter (\<lambda>opp. in_bucket (edge opp) b) opps)\<rparr>) buckets"
proof (induction opps rule: rev_induct)
  case Nil
  show ?case by (simp add: edgeDistribution_def buckets_def)
next
  case (snoc opp opps)
  have "edgeDistribution (opps @ [opp]) =
      count_first (in_bucket (edge opp)) (edgeDistribution opps)"
    by (simp add: edgeDistribution_def)
  also have "\<dots> = map (\<lambda>b. b\<lparr>bucket_count :=
      length (filter (\<lambda>opp. in_bucket (edge opp) b) opps) +
        (if in_bucket (edge opp) b then 1 else 0)\<rparr>) buckets"
    by (simp only: snoc.IH count_first_buckets)
  also have "\<dots> = map (\<lambda>b. b\<lparr>bucket_count :=
      length (filter (\<lambda>opp. in_bucket (edge opp) b) (opps @ [opp]))\<rparr>) buckets"
    by (rule map_cong) simp_all
  finally show ?case .
qed

lemma counts_total:
  "sum_list (map bucket_count (edgeDistribution opps)) =
     length (filter (\<lambda>opp. 0 \<le> edge opp) opps)"
proof (induction opps rule: rev_induct)
  case Nil
  show ?case by (simp add: edgeDistribution_closed buckets_def)
next
  case (snoc opp opps)
  then show ?case
    by (simp add: edgeDistribution_closed buckets_def in_bucket_def)
qed

text \<open>
  Claim C10. An edge that is at least 0 lies in exactly one of the five buckets and a
  negative edge in none. Every bucket counts the opportunities whose edge lies in it, so
  the counts add up to the number of opportunities with an edge of at least 0: to the
  length of the list when no edge is negative, and an opportunity with a negative edge
  changes no count.
\<close>

theorem edgeDistribution_counts:
  "length (filter (in_bucket e) buckets) = (if 0 \<le> e then 1 else 0) \<and>
   map bucket_count (edgeDistribution opps) =
     map (\<lambda>b. length (filter (\<lambda>opp. in_bucket (edge opp) b) opps)) buckets \<and>
   sum_list (map bucket_count (edgeDistribution opps)) =
     length (filter (\<lambda>opp. 0 \<le> edge opp) opps) \<and>
   ((\<forall>opp \<in> set opps. 0 \<le> edge opp) \<longrightarrow>
      sum_list (map bucket_count (edgeDistribution opps)) = length opps) \<and>
   (edge negative < 0 \<longrightarrow>
      edgeDistribution (before @ negative # after) = edgeDistribution (before @ after))"
proof -
  have partition: "length (filter (in_bucket e) buckets) = (if 0 \<le> e then 1 else 0)"
    by (rule buckets_partition)
  have each: "map bucket_count (edgeDistribution opps) =
      map (\<lambda>b. length (filter (\<lambda>opp. in_bucket (edge opp) b) opps)) buckets"
    by (simp add: edgeDistribution_closed comp_def)
  have total: "sum_list (map bucket_count (edgeDistribution opps)) =
      length (filter (\<lambda>opp. 0 \<le> edge opp) opps)"
    by (rule counts_total)
  have all: "(\<forall>opp \<in> set opps. 0 \<le> edge opp) \<longrightarrow>
      sum_list (map bucket_count (edgeDistribution opps)) = length opps"
    by (simp add: counts_total)
  have "edgeDistribution (before @ negative # after) = edgeDistribution (before @ after)"
    if "edge negative < 0"
    unfolding edgeDistribution_closed
    by (rule map_cong) (use that in \<open>auto simp: buckets_def in_bucket_def\<close>)
  with partition each total all show ?thesis by blast
qed

lemma example_edges:
  "edge (calculateProfits oppA) = 0.05" "edge (calculateProfits oppB) = 0.02"
  "edge (calculateProfits oppD) = 0.005" "edge (calculateProfits oppN) = - 0.02"
  by (simp_all add: calculateProfits_def Let_def Opportunity.defs OpportunityWithProfits.defs
      oppA_def oppB_def oppD_def oppN_def)

theorem edgeDistribution_counts_witness:
  "sum_list (map bucket_count (edgeDistribution
      [calculateProfits oppA, calculateProfits oppB, calculateProfits oppD])) = 3 \<and>
   map bucket_count (edgeDistribution
      [calculateProfits oppA, calculateProfits oppB, calculateProfits oppD]) = [1, 0, 1, 0, 1] \<and>
   edgeDistribution ([calculateProfits oppA] @ calculateProfits oppN # [calculateProfits oppB]) =
     edgeDistribution ([calculateProfits oppA] @ [calculateProfits oppB])"
  using edgeDistribution_counts [of 0
      "[calculateProfits oppA, calculateProfits oppB, calculateProfits oppD]"
      "calculateProfits oppN" "[calculateProfits oppA]" "[calculateProfits oppB]"]
  by (simp add: example_edges buckets_def in_bucket_def)

section \<open>Properties of the edge computation and the drawer\<close>

text \<open>
  Claim C4. The derived opportunity has the sum of the document's outcome prices as
  \<open>sumPrices\<close> and 1 minus that sum as \<open>edge\<close>. A market with outcome prices 0.40 and
  0.55 (and a liquidity, if it has one, that is not negative) has sum 0.95 and edge 0.05
  and is in the snapshot for minimum edge 0.01 and minimum liquidity 0. The underround
  the drawer shows is 1 minus \<open>sumPrices\<close>, which for a derived opportunity is its edge.
\<close>

theorem edge_computation:
  "sumPrices (deriveOpportunity link now doc) = sum_list (map price (doc_outcomes doc)) \<and>
   edge (deriveOpportunity link now doc) = 1 - sumPrices (deriveOpportunity link now doc) \<and>
   (map price (doc_outcomes a) = [0.40, 0.55] \<and> (\<forall>l. doc_liquidity a = Some l \<longrightarrow> 0 \<le> l) \<longrightarrow>
      sumPrices (deriveOpportunity link now a) = 0.95 \<and>
      edge (deriveOpportunity link now a) = 0.05 \<and>
      (a \<in> set docs \<longrightarrow> deriveOpportunity link now a \<in> set (snapshot 0.01 0 link now docs))) \<and>
   (drawerUnderround (Some opp) = Some u \<longrightarrow> u = 1 - sumPrices opp) \<and>
   drawerUnderround (Some (calculateProfits (deriveOpportunity link now doc))) =
     (if doc_outcomes doc = [] then None else Some (edge (deriveOpportunity link now doc)))"
proof -
  have derived: "sumPrices (deriveOpportunity link now d) = sum_list (map price (doc_outcomes d))"
    "edge (deriveOpportunity link now d) = 1 - sumPrices (deriveOpportunity link now d)" for d
    by (simp_all add: deriveOpportunity_def edgeComputer_def Let_def)
  have scenario: "sumPrices (deriveOpportunity link now a) = 0.95 \<and>
      edge (deriveOpportunity link now a) = 0.05 \<and>
      (a \<in> set docs \<longrightarrow> deriveOpportunity link now a \<in> set (snapshot 0.01 0 link now docs))"
    if "map price (doc_outcomes a) = [0.40, 0.55]" "\<forall>l. doc_liquidity a = Some l \<longrightarrow> 0 \<le> l"
  proof -
    have s: "sumPrices (deriveOpportunity link now a) = 0.95"
      using that by (simp add: derived)
    then have e: "edge (deriveOpportunity link now a) = 0.05"
      by (simp add: derived)
    have "liquidity (deriveOpportunity link now a) = doc_liquidity a"
      by (simp add: deriveOpportunity_def)
    with e that have "\<not> excluded 0.01 0 (deriveOpportunity link now a)"
      by (auto simp: excluded_def split: option.splits)
    with s e show ?thesis by (simp add: snapshot_def)
  qed
  have drawer: "drawerUnderround (Some opp) = Some u \<longrightarrow> u = 1 - sumPrices opp"
    by (auto simp: drawerUnderround_def split: option.splits if_splits)
  have shown: "drawerUnderround (Some (calculateProfits (deriveOpportunity link now doc))) =
     (if doc_outcomes doc = [] then None else Some (edge (deriveOpportunity link now doc)))"
    by (simp add: drawerUnderround_def calculateProfits_def deriveOpportunity_def
        edgeComputer_def Let_def Opportunity.defs OpportunityWithProfits.defs)
  show ?thesis
  proof (intro conjI)
    show "sumPrices (deriveOpportunity link now doc) = sum_list (map price (doc_outcomes doc))"
      by (rule derived)
    show "edge (deriveOpportunity link now doc) = 1 - sumPrices (deriveOpportunity link now doc)"
      by (rule derived)
    show "map price (doc_outcomes a) = [0.40, 0.55] \<and>
        (\<forall>l. doc_liquidity a = Some l \<longrightarrow> 0 \<le> l) \<longrightarrow>
      sumPrices (deriveOpportunity link now a) = 0.95 \<and>
      edge (deriveOpportunity link now a) = 0.05 \<and>
      (a \<in> set docs \<longrightarrow> deriveOpportunity link now a \<in> set (snapshot 0.01 0 link now docs))"
      using scenario by (intro impI) (elim conjE)
  qed (rule drawer, rule shown)
qed

theorem edge_computation_witness:
  "sumPrices (deriveOpportunity ''https://example.org/A'' ''2025-01-01T00:00:00Z'' docA) = 0.95 \<and>
   edge (deriveOpportunity ''https://example.org/A'' ''2025-01-01T00:00:00Z'' docA) = 0.05 \<and>
   deriveOpportunity ''https://example.org/A'' ''2025-01-01T00:00:00Z'' docA
     \<in> set (snapshot 0.01 0 ''https://example.org/A'' ''2025-01-01T00:00:00Z'' [docA]) \<and>
   deriveOpportunity ''https://example.org/A'' ''2025-01-01T00:00:00Z'' docA = oppA \<and>
   drawerUnderround (Some (calculateProfits oppA)) = Some 0.05"
proof -
  have same: "deriveOpportunity ''https://example.org/A'' ''2025-01-01T00:00:00Z'' docA = oppA"
    by (simp add: deriveOpportunity_def docA_def oppA_def edgeComputer_def Let_def)
  have "map price (doc_outcomes docA) = [0.40, 0.55] \<and>
      (\<forall>l. doc_liquidity docA = Some l \<longrightarrow> 0 \<le> l)"
    by (simp add: docA_def)
  moreover have "doc_outcomes docA \<noteq> []"
    by (simp add: docA_def)
  ultimately show ?thesis
    using edge_computation [of "''https://example.org/A''" "''2025-01-01T00:00:00Z''" docA docA
        "[docA]" "calculateProfits oppA" "0.05"] same
    by simp
qed


end
